theory Spec2Isabelle
  imports Complex_Main "HOL-Library.Log_Nat"
begin

section \<open>Numeric cells\<close>

text \<open>
  A numeric column of a DataFrame holds float64 cells. A cell is modelled as a
  \<open>rat option\<close>: \<open>None\<close> is NaN (a missing value), \<open>Some q\<close> is a finite value.
  Arithmetic on finite values is exact: the cells of the model are the values the
  formulas of the source denote, before float64 rounds them. Arithmetic propagates
  NaN, and a comparison with NaN is false, as in numpy. Where a property depends on
  the rounding itself, the float64 result of an operation is \<open>fl64\<close> of its exact
  result (section Float64 rounding).
\<close>

type_synonym num = "rat option"

definition num_gt :: "num \<Rightarrow> rat \<Rightarrow> bool" where
  "num_gt x c = (case x of None \<Rightarrow> False | Some v \<Rightarrow> c < v)"

definition num_ge :: "num \<Rightarrow> rat \<Rightarrow> bool" where
  "num_ge x c = (case x of None \<Rightarrow> False | Some v \<Rightarrow> c \<le> v)"

definition num_lt :: "num \<Rightarrow> rat \<Rightarrow> bool" where
  "num_lt x c = (case x of None \<Rightarrow> False | Some v \<Rightarrow> v < c)"

definition num_le :: "num \<Rightarrow> rat \<Rightarrow> bool" where
  "num_le x c = (case x of None \<Rightarrow> False | Some v \<Rightarrow> v \<le> c)"

fun num_sub :: "num \<Rightarrow> num \<Rightarrow> num" where
  "num_sub (Some a) (Some b) = Some (a - b)"
| "num_sub _ _ = None"

fun num_mul :: "num \<Rightarrow> num \<Rightarrow> num" where
  "num_mul (Some a) (Some b) = Some (a * b)"
| "num_mul _ _ = None"

text \<open>
  A division by zero gives no finite value (numpy: \<open>inf\<close> or NaN, with a warning and
  no exception). Every division of the program whose result is kept is guarded, so
  the \<open>None\<close> of this case is never compared or stored where it would matter that
  \<open>inf\<close> is not NaN.
\<close>

fun num_div :: "num \<Rightarrow> num \<Rightarrow> num" where
  "num_div (Some a) (Some b) = (if b = 0 then None else Some (a / b))"
| "num_div _ _ = None"

definition num_abs :: "num \<Rightarrow> num" where
  "num_abs x = map_option abs x"

text \<open>\<open>x.fillna(v)\<close> on one cell.\<close>

definition fillna :: "num \<Rightarrow> num \<Rightarrow> num" where
  "fillna v x = (case x of None \<Rightarrow> v | Some y \<Rightarrow> Some y)"

text \<open>\<open>isna\<close> on one cell.\<close>

definition isna :: "'a option \<Rightarrow> bool" where
  "isna x = (x = None)"

section \<open>Float64 rounding\<close>




section \<open>Aggregations of pandas\<close>

text \<open>The cells of a column that are not null.\<close>

definition dropna :: "'a option list \<Rightarrow> 'a list" where
  "dropna xs = map the (filter (\<lambda>x. x \<noteq> None) xs)"

text \<open>\<open>Series.nunique()\<close> of a column without nulls: the number of distinct values.\<close>

definition nunique :: "'a list \<Rightarrow> nat" where
  "nunique xs = length (remdups xs)"

text \<open>
  \<open>Series.mean()\<close>: the mean of the cells that are not NaN, and NaN when there is
  none (pandas skips NaN by default).
\<close>

definition mean :: "num list \<Rightarrow> num" where
  "mean xs = (let vs = dropna xs in
     if vs = [] then None else Some (sum_list vs / of_nat (length vs)))"

text \<open>
  \<open>df.groupby(key)\<close>: one group per distinct key, holding the rows of that key in
  their order. The keys of this program are strings (the cleaning stage makes every
  text column a string), so no group is dropped for a null key.
\<close>

definition groupby :: "('r \<Rightarrow> 'k) \<Rightarrow> 'r list \<Rightarrow> ('k \<times> 'r list) list" where
  "groupby key df = map (\<lambda>k. (k, filter (\<lambda>r. key r = k) df)) (remdups (map key df))"

text \<open>\<open>df.groupby(key)[col].agg()\<close>: the Series of one aggregate per key.\<close>

definition groupby_agg :: "('r \<Rightarrow> 'k) \<Rightarrow> ('r list \<Rightarrow> 'v) \<Rightarrow> 'r list \<Rightarrow> ('k \<times> 'v) list" where
  "groupby_agg key agg df = map (\<lambda>(k, g). (k, agg g)) (groupby key df)"

text \<open>
  \<open>df.merge(series, on=key, how='left')\<close>: the cell the new column gets in a row of
  key \<open>k\<close>. The keys of the Series are distinct, so the merge keeps every row of the
  left frame once and in order; a key absent from the Series gives NaN.
\<close>

definition merge_num :: "('k \<times> num) list \<Rightarrow> 'k \<Rightarrow> num" where
  "merge_num series k = (case map_of series k of None \<Rightarrow> None | Some v \<Rightarrow> v)"

definition merge_count :: "('k \<times> nat) list \<Rightarrow> 'k \<Rightarrow> num" where
  "merge_count series k = map_option of_nat (map_of series k)"

section \<open>Data model\<close>

type_synonym date = int

datatype quality = high | medium | low

text \<open>
  One sale observation as the staging table holds it. \<open>'txt\<close> is the type of a text
  cell: \<open>string option\<close> in the raw table (a cell may be null), \<open>string\<close> after
  cleaning. \<open>date_of_sale = None\<close> is NaT. The column \<open>section\<close> is the field
  \<open>section_name\<close>.
\<close>

record 'txt sale =
  store_name :: 'txt
  item_code :: 'txt
  item_barcode :: 'txt
  description :: 'txt
  category :: 'txt
  department :: 'txt
  sub_department :: 'txt
  section_name :: 'txt
  supplier :: 'txt
  date_of_sale :: "date option"
  quantity :: num
  total_sales :: num
  rrp :: num

type_synonym raw_row = "string option sale"

text \<open>A cleaned row: the input of the transformation.\<close>

record row = "string sale" +
  unit_price :: num
  data_quality_flag :: quality

text \<open>The columns each pass of the transformation adds.\<close>

record promo_row = row +
  discount_pct :: num
  promo_days_count :: num
  is_promo :: bool

record uplift_row = promo_row +
  baseline_units :: num
  promo_avg_units :: num
  promo_uplift_pct :: num

record priced_row = uplift_row +
  is_bidco :: bool
  group_avg_price :: num
  price_index_vs_comp :: num

record enriched_row = priced_row +
  promo_store_count :: num
  promo_coverage_pct :: num

section \<open>Stage 2: transformation (02\_transform.py)\<close>

definition PROMO_MIN_DISCOUNT_PCT :: rat where
  "PROMO_MIN_DISCOUNT_PCT = 1 / 10"

definition PROMO_MIN_DAYS :: rat where
  "PROMO_MIN_DAYS = 2"

subsection \<open>detect\_promos\<close>

text \<open>\<open>np.where(df['rrp'] > 0, (df['rrp'] - df['unit_price']) / df['rrp'], 0)\<close>\<close>

definition calc_discount_pct :: "'a row_scheme \<Rightarrow> num" where
  "calc_discount_pct r =
     (if num_gt (rrp r) 0 then num_div (num_sub (rrp r) (unit_price r)) (rrp r) else Some 0)"

text \<open>The temporary column \<open>is_promo_candidate\<close>.\<close>

definition is_promo_candidate :: "'a row_scheme \<Rightarrow> bool" where
  "is_promo_candidate r = num_ge (calc_discount_pct r) PROMO_MIN_DISCOUNT_PCT"

text \<open>
  \<open>df[df['is_promo_candidate']].groupby('item_code')['date_of_sale'].nunique()\<close>;
  \<open>nunique\<close> does not count NaT.
\<close>

definition promo_days :: "row list \<Rightarrow> (string \<times> nat) list" where
  "promo_days df =
     groupby_agg item_code (\<lambda>g. nunique (dropna (map date_of_sale g)))
       (filter is_promo_candidate df)"

definition detect_promos :: "row list \<Rightarrow> promo_row list" where
  "detect_promos df =
     (let days = promo_days df in
      map (\<lambda>r.
        let days_count = fillna (Some 0) (merge_count days (item_code r)) in
        row.extend r (promo_row.fields
          (calc_discount_pct r)
          days_count
          (is_promo_candidate r \<and> num_ge days_count PROMO_MIN_DAYS))) df)"

subsection \<open>calculate\_uplift\<close>

text \<open>\<open>df[~df['is_promo']].groupby('item_code')['quantity'].mean()\<close>\<close>

definition baseline :: "promo_row list \<Rightarrow> (string \<times> num) list" where
  "baseline df =
     groupby_agg item_code (\<lambda>g. mean (map quantity g)) (filter (\<lambda>r. \<not> is_promo r) df)"

text \<open>\<open>df[df['is_promo']].groupby('item_code')['quantity'].mean()\<close>\<close>

definition promo_avg :: "promo_row list \<Rightarrow> (string \<times> num) list" where
  "promo_avg df =
     groupby_agg item_code (\<lambda>g. mean (map quantity g)) (filter is_promo df)"

definition calculate_uplift :: "promo_row list \<Rightarrow> uplift_row list" where
  "calculate_uplift df =
     (let bl = baseline df; pa = promo_avg df in
      map (\<lambda>r.
        let b = fillna (quantity r) (merge_num bl (item_code r));
            p = fillna (Some 0) (merge_num pa (item_code r))
        in promo_row.extend r (uplift_row.fields b p
             (if num_gt b 0 \<and> is_promo r
              then num_mul (num_div (num_sub p b) b) (Some 100)
              else Some 0))) df)"

subsection \<open>calculate\_price\_index\<close>

text \<open>
  \<open>df['supplier'].str.contains('Bidco', case=False, na=False)\<close>, on ASCII letters:
  the pattern has no regular-expression operator, so the match is a substring search
  after folding the case.
\<close>

definition lower_char :: "char \<Rightarrow> char" where
  "lower_char c =
     (let n = (of_char c :: nat) in if 65 \<le> n \<and> n \<le> 90 then char_of (n + 32) else c)"

fun contains :: "string \<Rightarrow> string \<Rightarrow> bool" where
  "contains pat [] = (pat = [])"
| "contains pat (c # cs) = (take (length pat) (c # cs) = pat \<or> contains pat cs)"

definition str_contains_nocase :: "string \<Rightarrow> string \<Rightarrow> bool" where
  "str_contains_nocase pat s = contains (map lower_char pat) (map lower_char s)"

text \<open>\<open>groupby_cols = ['sub_department', 'section', 'store_name']\<close>\<close>

definition groupby_cols :: "'a row_scheme \<Rightarrow> string \<times> string \<times> string" where
  "groupby_cols r = (sub_department r, section_name r, store_name r)"

text \<open>\<open>df.groupby(groupby_cols)['unit_price'].mean()\<close>\<close>

definition avg_prices :: "uplift_row list \<Rightarrow> ((string \<times> string \<times> string) \<times> num) list" where
  "avg_prices df = groupby_agg groupby_cols (\<lambda>g. mean (map unit_price g)) df"

definition calculate_price_index :: "uplift_row list \<Rightarrow> priced_row list" where
  "calculate_price_index df =
     (let avgs = avg_prices df in
      map (\<lambda>r.
        let g = merge_num avgs (groupby_cols r)
        in uplift_row.extend r (priced_row.fields
             (str_contains_nocase ''Bidco'' (supplier r))
             g
             (if num_gt g 0 then num_div (unit_price r) g else Some 1))) df)"

subsection \<open>calculate\_promo\_coverage\<close>

text \<open>\<open>df[df['is_promo']].groupby('item_code')['store_name'].nunique()\<close>\<close>

definition promo_coverage :: "priced_row list \<Rightarrow> (string \<times> nat) list" where
  "promo_coverage df =
     groupby_agg item_code (\<lambda>g. nunique (map store_name g)) (filter is_promo df)"

definition calculate_promo_coverage :: "priced_row list \<Rightarrow> enriched_row list" where
  "calculate_promo_coverage df =
     (let total_stores = nunique (map store_name df);
          coverage = promo_coverage df in
      map (\<lambda>r.
        let c = fillna (Some 0) (merge_count coverage (item_code r))
        in priced_row.extend r (enriched_row.fields c
             (num_mul (num_div c (Some (of_nat total_stores))) (Some 100)))) df)"

subsection \<open>main\<close>

text \<open>
  The four passes in the order of the source. The printed summaries are not part of
  the returned frame and are left out; their ratios divide numpy scalars, which gives
  NaN and no exception on an empty frame.
\<close>

definition main :: "row list \<Rightarrow> enriched_row list" where
  "main df_cleaned =
     (let df = detect_promos df_cleaned;
          df = calculate_uplift df;
          df = calculate_price_index df;
          df = calculate_promo_coverage df
      in df)"

section \<open>Stage 1: cleaning (01\_cleaning.py)\<close>

text \<open>
  The string methods of pandas that the cleaning applies to a text column are taken
  as parameters, each standing for the whole chain of the source on one cell:
  \<open>astype(str).str.strip().str.title()\<close>, \<open>astype(str).str.strip().str.upper()\<close> and
  \<open>astype(str).str.strip()\<close>. Every result below holds for any such functions.
\<close>

record text_ops =
  strip_title :: "string option \<Rightarrow> string"
  strip_upper :: "string option \<Rightarrow> string"
  strip_only :: "string option \<Rightarrow> string"

text \<open>\<open>np.where(df['quantity'] > 0, df['total_sales'] / df['quantity'], 0)\<close>\<close>

definition calc_unit_price :: "('txt, 'a) sale_scheme \<Rightarrow> num" where
  "calc_unit_price r =
     (if num_gt (quantity r) 0 then num_div (total_sales r) (quantity r) else Some 0)"

text \<open>Step 2: the text columns, standardised.\<close>

definition standardize_text :: "text_ops \<Rightarrow> raw_row \<Rightarrow> string sale" where
  "standardize_text ops r =
     \<lparr> store_name = strip_title ops (store_name r),
       item_code = strip_upper ops (item_code r),
       item_barcode = strip_only ops (item_barcode r),
       description = strip_title ops (description r),
       category = strip_title ops (category r),
       department = strip_title ops (department r),
       sub_department = strip_title ops (sub_department r),
       section_name = strip_title ops (section_name r),
       supplier = strip_title ops (supplier r),
       date_of_sale = date_of_sale r,
       quantity = quantity r,
       total_sales = total_sales r,
       rrp = rrp r \<rparr>"

text \<open>
  Step 3: the data-quality flag of a row whose text is standardised and whose unit
  price is \<open>up\<close>. The assignments follow the order of the source. After
  \<open>astype(str)\<close> no text cell is null, so \<open>isna\<close> of a text column is false.
\<close>

definition flag_quality :: "string sale \<Rightarrow> num \<Rightarrow> quality" where
  "flag_quality r up =
     (let flag = high;
          negative_qty = num_lt (quantity r) 0;
          negative_sales = num_lt (total_sales r) 0;
          flag = (if negative_qty \<or> negative_sales then low else flag);
          missing_rrp = (isna (rrp r) \<or> num_le (rrp r) 0);
          flag = (if missing_rrp \<and> flag = high then medium else flag);
          rrp_deviation = num_div (num_abs (num_sub up (rrp r))) (rrp r);
          high_deviation = (num_gt rrp_deviation (1 / 2) \<and> num_gt (rrp r) 0);
          flag = (if high_deviation \<and> flag = high then medium else flag);
          missing_store = (store_name r = []);
          missing_item = (item_code r = []);
          missing_date = isna (date_of_sale r);
          critical_missing = (missing_store \<or> missing_item \<or> missing_date);
          flag = (if critical_missing then low else flag)
      in flag)"

definition clean_row :: "text_ops \<Rightarrow> raw_row \<Rightarrow> row" where
  "clean_row ops r =
     (let up = calc_unit_price r;
          s = standardize_text ops r
      in sale.extend s (row.fields up (flag_quality s up)))"

text \<open>
  \<open>df.drop_duplicates(subset=cols, keep='first')\<close>: \<open>seen\<close> holds the keys of the rows
  kept so far. Two NaT dates count as equal, as in pandas.
\<close>

fun drop_duplicates_from :: "('r \<Rightarrow> 'k) \<Rightarrow> 'k list \<Rightarrow> 'r list \<Rightarrow> 'r list" where
  "drop_duplicates_from key seen [] = []"
| "drop_duplicates_from key seen (r # rs) =
     (if key r \<in> set seen then drop_duplicates_from key seen rs
      else r # drop_duplicates_from key (key r # seen) rs)"

definition drop_duplicates :: "('r \<Rightarrow> 'k) \<Rightarrow> 'r list \<Rightarrow> 'r list" where
  "drop_duplicates key df = drop_duplicates_from key [] df"

text \<open>\<open>duplicate_cols = ['store_name', 'item_code', 'date_of_sale']\<close>\<close>

definition duplicate_cols :: "'a row_scheme \<Rightarrow> string \<times> string \<times> date option" where
  "duplicate_cols r = (store_name r, item_code r, date_of_sale r)"

text \<open>
  The final type conversions (\<open>pd.to_numeric\<close>, \<open>pd.to_datetime\<close>) leave float and
  datetime columns as they are, and the columns read from staging are of these types.
\<close>

definition clean_data :: "text_ops \<Rightarrow> raw_row list \<Rightarrow> row list" where
  "clean_data ops df = drop_duplicates duplicate_cols (map (clean_row ops) df)"

section \<open>Example frames\<close>

text \<open>
  Small cleaned frames on which the results below are evaluated. Every row is one the
  cleaning stage can produce: its unit price is \<open>total_sales / quantity\<close> when the
  quantity is positive and 0 otherwise, and its flag is the one the cleaning assigns
  (\<open>examples_produced_by_cleaning\<close> below).
\<close>

definition example_row ::
  "string \<Rightarrow> string \<Rightarrow> date option \<Rightarrow> num \<Rightarrow> num \<Rightarrow> num \<Rightarrow> num \<Rightarrow> quality \<Rightarrow> row" where
  "example_row store item day qty sales price list_price flag =
     \<lparr> store_name = store, item_code = item, item_barcode = ''0'', description = ''Oil'',
       category = ''Food'', department = ''Grocery'', sub_department = ''Oils'',
       section_name = ''Cooking'', supplier = ''Bidco Africa Ltd'', date_of_sale = day,
       quantity = qty, total_sales = sales, rrp = list_price, unit_price = price,
       data_quality_flag = flag \<rparr>"

text \<open>
  What the cleaning stage guarantees of its output: the unit price and the flag of
  every row are the ones it computes, and no two rows share store, item and date.
\<close>

definition produced_by_cleaning :: "row list \<Rightarrow> bool" where
  "produced_by_cleaning df \<longleftrightarrow>
     list_all (\<lambda>r. unit_price r = calc_unit_price r \<and>
                    data_quality_flag r = flag_quality (sale.truncate r) (unit_price r)) df \<and>
     distinct (map duplicate_cols df)"

text \<open>
  SKU1 sells at 15\% under its RRP on day 1 in store A and on day 2 in store B, and at
  its RRP on day 3; SKU2 is never discounted; SKU3 is discounted on every one of its rows.
\<close>

definition df_sku :: "row list" where
  "df_sku =
     [example_row ''A'' ''SKU1'' (Some 1) (Some 5) (Some 425) (Some 85) (Some 100) high,
      example_row ''B'' ''SKU1'' (Some 2) (Some 7) (Some 595) (Some 85) (Some 100) high,
      example_row ''B'' ''SKU1'' (Some 3) (Some 4) (Some 400) (Some 100) (Some 100) high,
      example_row ''B'' ''SKU2'' (Some 1) (Some 3) (Some 300) (Some 100) (Some 100) high,
      example_row ''A'' ''SKU3'' (Some 1) (Some 10) (Some 800) (Some 80) (Some 100) high,
      example_row ''A'' ''SKU3'' (Some 2) (Some 10) (Some 800) (Some 80) (Some 100) high]"

text \<open>
  An item whose only row outside a promotion has no recorded quantity. The staged row
  has neither a quantity nor an RRP, so the cleaning gives it the unit price 0 and the
  flag \<open>medium\<close>.
\<close>

definition df_missing_quantity :: "row list" where
  "df_missing_quantity =
     [example_row ''A'' ''X'' (Some 3) None None (Some 0) None medium,
      example_row ''A'' ''X'' (Some 1) (Some 5) (Some 425) (Some 85) (Some 100) high,
      example_row ''A'' ''X'' (Some 2) (Some 7) (Some 595) (Some 85) (Some 100) high]"

text \<open>
  Two sales of one cohort with a positive quantity and a negative amount (flagged
  \<open>low\<close> by the cleaning, and kept): their unit prices are negative.
\<close>

definition df_negative_prices :: "row list" where
  "df_negative_prices =
     [example_row ''A'' ''N1'' (Some 1) (Some 1) (Some (- 1)) (Some (- 1)) (Some 10) low,
      example_row ''A'' ''N2'' (Some 1) (Some 1) (Some (- 3)) (Some (- 3)) (Some 10) low]"

text \<open>A row whose RRP is 0.\<close>

definition df_zero_rrp :: "row list" where
  "df_zero_rrp = [example_row ''A'' ''Z'' (Some 1) (Some 2) (Some 100) (Some 50) (Some 0) medium]"

text \<open>
  A sale with a positive quantity and no recorded amount: the cleaning divides the
  missing amount by the quantity, so the unit price is missing.
\<close>

definition df_missing_sales :: "row list" where
  "df_missing_sales = [example_row ''A'' ''M'' (Some 1) (Some 2) None None (Some 100) high]"

text \<open>
  Raw rows for the cleaning stage: a return (negative quantity and amount) and a row
  of quantity 0. Their text cells are already stripped and cased, so the text
  operations of the cleaning leave them as they are: \<open>astype(str)\<close> alone acts.
\<close>

definition astype_str :: "string option \<Rightarrow> string" where
  "astype_str c = (case c of None \<Rightarrow> ''None'' | Some s \<Rightarrow> s)"

definition plain_text_ops :: text_ops where
  "plain_text_ops = \<lparr> strip_title = astype_str, strip_upper = astype_str, strip_only = astype_str \<rparr>"

definition raw_returns :: "raw_row list" where
  "raw_returns =
     [\<lparr> store_name = Some ''A'', item_code = Some ''R1'', item_barcode = Some ''0'',
        description = Some ''Oil'', category = Some ''Food'', department = Some ''Grocery'',
        sub_department = Some ''Oils'', section_name = Some ''Cooking'',
        supplier = Some ''Bidco Africa Ltd'', date_of_sale = Some 5,
        quantity = Some (- 2), total_sales = Some (- 170), rrp = Some 100 \<rparr>,
      \<lparr> store_name = Some ''A'', item_code = Some ''R1'', item_barcode = Some ''0'',
        description = Some ''Oil'', category = Some ''Food'', department = Some ''Grocery'',
        sub_department = Some ''Oils'', section_name = Some ''Cooking'',
        supplier = Some ''Bidco Africa Ltd'', date_of_sale = Some 6,
        quantity = Some 0, total_sales = Some 0, rrp = Some 100 \<rparr>]"

text \<open>
  A cohort of two sales with the unit prices 1 and 97: its average 49 and both prices
  are float64 numbers, the quotient 1 / 49 is not.
\<close>

definition df_round_trip :: "row list" where
  "df_round_trip =
     [example_row ''A'' ''T1'' (Some 1) (Some 1) (Some 1) (Some 1) (Some 1) high,
      example_row ''A'' ''T2'' (Some 1) (Some 1) (Some 97) (Some 97) (Some 97) high]"

text \<open>A sale without a recorded amount in a cohort that has a priced row.\<close>

definition df_missing_sales_priced :: "row list" where
  "df_missing_sales_priced =
     [example_row ''A'' ''M'' (Some 1) (Some 2) None None (Some 100) high,
      example_row ''A'' ''P'' (Some 1) (Some 1) (Some 50) (Some 50) (Some 50) high]"

section \<open>Properties of the model\<close>

subsection \<open>Series as lookup tables\<close>

lemma map_of_tabulate:
  "map_of (map (\<lambda>k. (k, f k)) ks) k = (if k \<in> set ks then Some (f k) else None)"
  by (induction ks) auto

lemma map_of_groupby_agg:
  "map_of (groupby_agg key agg df) k =
     (if k \<in> key ` set df then Some (agg (filter (\<lambda>r. key r = k) df)) else None)"
  by (simp add: groupby_agg_def groupby_def comp_def map_of_tabulate)

lemma mean_Nil: "mean [] = None"
  by (simp add: mean_def dropna_def)

lemma filter_key_empty: "k \<notin> key ` set df \<Longrightarrow> filter (\<lambda>r. key r = k) df = []"
  by (induction df) auto

lemma merge_num_mean:
  "merge_num (groupby_agg key (\<lambda>g. mean (map val g)) df) k =
     mean (map val (filter (\<lambda>r. key r = k) df))"
  by (simp add: merge_num_def map_of_groupby_agg filter_key_empty mean_Nil)

lemma nunique_Nil: "nunique [] = 0"
  by (simp add: nunique_def)

lemma merge_count_fill:
  assumes "agg [] = 0"
  shows "fillna (Some 0) (merge_count (groupby_agg key agg df) k) =
     Some (of_nat (agg (filter (\<lambda>r. key r = k) df)))"
  using assms by (simp add: merge_count_def fillna_def map_of_groupby_agg filter_key_empty)

lemma nunique_card: "nunique xs = card (set xs)"
  by (simp add: nunique_def length_remdups_card_conv)

lemma set_dropna: "set (dropna xs) = {x. Some x \<in> set xs}"
  by (force simp: dropna_def image_iff)

subsection \<open>Each pass adds columns to the rows it is given\<close>

lemma detect_promos_map:
  "detect_promos df = map (\<lambda>r. row.extend r (promo_row.fields
      (calc_discount_pct r)
      (fillna (Some 0) (merge_count (promo_days df) (item_code r)))
      (is_promo_candidate r \<and>
         num_ge (fillna (Some 0) (merge_count (promo_days df) (item_code r))) PROMO_MIN_DAYS))) df"
  by (simp add: detect_promos_def Let_def)

lemma row_truncate_extend: "row.truncate (row.extend r e) = r"
  by (cases r) (simp add: row.defs)

lemma promo_row_truncate_extend: "promo_row.truncate (promo_row.extend r e) = r"
  by (cases r) (simp add: promo_row.defs)

lemma uplift_row_truncate_extend: "uplift_row.truncate (uplift_row.extend r e) = r"
  by (cases r) (simp add: uplift_row.defs)

lemma priced_row_truncate_extend: "priced_row.truncate (priced_row.extend r e) = r"
  by (cases r) (simp add: priced_row.defs)

lemma detect_promos_truncate: "map row.truncate (detect_promos df) = df"
  by (simp add: detect_promos_map comp_def row_truncate_extend)

lemma calculate_uplift_truncate: "map promo_row.truncate (calculate_uplift df) = df"
  by (simp add: calculate_uplift_def Let_def comp_def promo_row_truncate_extend)

lemma calculate_price_index_truncate: "map uplift_row.truncate (calculate_price_index df) = df"
  by (simp add: calculate_price_index_def Let_def comp_def uplift_row_truncate_extend)

lemma calculate_promo_coverage_truncate:
  "map priced_row.truncate (calculate_promo_coverage df) = df"
  by (simp add: calculate_promo_coverage_def Let_def comp_def priced_row_truncate_extend)

lemma map_filter_via:
  assumes "map g ys = xs" and "\<And>y. P y = P' (g y)" and "\<And>y. f y = f' (g y)"
  shows "map f (filter P ys) = map f' (filter P' xs)"
proof -
  have "map f' (filter P' xs) = map f' (filter P' (map g ys))"
    using assms(1) by simp
  also have "\<dots> = map (\<lambda>y. f' (g y)) (filter (\<lambda>y. P' (g y)) ys)"
    by (simp add: filter_map comp_def)
  also have "\<dots> = map f (filter P ys)"
    by (simp add: assms(2,3) [symmetric])
  finally show ?thesis by simp
qed

subsection \<open>The enriched frame, seen one pass at a time\<close>

lemma main_priced:
  "map priced_row.truncate (main df) =
     calculate_price_index (calculate_uplift (detect_promos df))"
  by (simp add: main_def Let_def calculate_promo_coverage_truncate)

lemma main_uplift: "map uplift_row.truncate (main df) = calculate_uplift (detect_promos df)"
proof -
  have "map uplift_row.truncate (main df) =
        map uplift_row.truncate (map priced_row.truncate (main df))"
    by (simp add: comp_def uplift_row.defs priced_row.defs)
  then show ?thesis
    by (simp only: main_priced calculate_price_index_truncate)
qed

lemma main_promo: "map promo_row.truncate (main df) = detect_promos df"
proof -
  have "map promo_row.truncate (main df) =
        map promo_row.truncate (map uplift_row.truncate (main df))"
    by (simp add: comp_def promo_row.defs uplift_row.defs)
  then show ?thesis
    by (simp only: main_uplift calculate_uplift_truncate)
qed

lemma main_row: "map row.truncate (main df) = df"
proof -
  have "map row.truncate (main df) = map row.truncate (map promo_row.truncate (main df))"
    by (simp add: comp_def row.defs promo_row.defs)
  then show ?thesis
    by (simp only: main_promo detect_promos_truncate)
qed

lemma main_length: "length (main df) = length df"
  using arg_cong [OF main_row, of length df] by simp

subsection \<open>The cells each pass writes\<close>

lemma detect_promos_cells:
  assumes "r \<in> set (detect_promos df)"
  shows "discount_pct r = calc_discount_pct r"
    and "promo_days_count r = fillna (Some 0) (merge_count (promo_days df) (item_code r))"
    and "is_promo r = (is_promo_candidate r \<and> num_ge (promo_days_count r) PROMO_MIN_DAYS)"
  using assms
  by (auto simp: detect_promos_map row.defs promo_row.defs calc_discount_pct_def
      is_promo_candidate_def)

lemma calculate_uplift_cells:
  assumes "r \<in> set (calculate_uplift df)"
  shows "baseline_units r = fillna (quantity r) (merge_num (baseline df) (item_code r))"
    and "promo_avg_units r = fillna (Some 0) (merge_num (promo_avg df) (item_code r))"
    and "promo_uplift_pct r =
           (if num_gt (baseline_units r) 0 \<and> is_promo r
            then num_mul (num_div (num_sub (promo_avg_units r) (baseline_units r))
                   (baseline_units r)) (Some 100)
            else Some 0)"
  using assms
  by (auto simp: calculate_uplift_def Let_def promo_row.defs uplift_row.defs)

lemma calculate_price_index_cells:
  assumes "r \<in> set (calculate_price_index df)"
  shows "group_avg_price r = merge_num (avg_prices df) (groupby_cols r)"
    and "price_index_vs_comp r =
           (if num_gt (group_avg_price r) 0 then num_div (unit_price r) (group_avg_price r)
            else Some 1)"
    and "is_bidco r = str_contains_nocase ''Bidco'' (supplier r)"
  using assms
  by (auto simp: calculate_price_index_def Let_def uplift_row.defs priced_row.defs
      groupby_cols_def)

lemma calculate_promo_coverage_cells:
  assumes "r \<in> set (calculate_promo_coverage df)"
  shows "promo_store_count r = fillna (Some 0) (merge_count (promo_coverage df) (item_code r))"
    and "promo_coverage_pct r =
           num_mul (num_div (promo_store_count r) (Some (of_nat (nunique (map store_name df)))))
             (Some 100)"
  using assms
  by (auto simp: calculate_promo_coverage_def Let_def priced_row.defs enriched_row.defs)

subsection \<open>The cells of the enriched frame\<close>

lemma main_promo_mem: "r \<in> set (main df) \<Longrightarrow> promo_row.truncate r \<in> set (detect_promos df)"
  using main_promo [of df] by (metis imageI set_map)

lemma main_uplift_mem:
  "r \<in> set (main df) \<Longrightarrow> uplift_row.truncate r \<in> set (calculate_uplift (detect_promos df))"
  using main_uplift [of df] by (metis imageI set_map)

lemma main_priced_mem:
  "r \<in> set (main df) \<Longrightarrow>
   priced_row.truncate r \<in> set (calculate_price_index (calculate_uplift (detect_promos df)))"
  using main_priced [of df] by (metis imageI set_map)

lemma promo_truncate_sel:
  "item_code (promo_row.truncate r) = item_code r"
  "quantity (promo_row.truncate r) = quantity r"
  "rrp (promo_row.truncate r) = rrp r"
  "unit_price (promo_row.truncate r) = unit_price r"
  "discount_pct (promo_row.truncate r) = discount_pct r"
  "promo_days_count (promo_row.truncate r) = promo_days_count r"
  "is_promo (promo_row.truncate r) = is_promo r"
  by (simp_all add: promo_row.defs)

lemma promo_truncate_calc:
  "calc_discount_pct (promo_row.truncate r) = calc_discount_pct r"
  "is_promo_candidate (promo_row.truncate r) = is_promo_candidate r"
  by (simp_all add: calc_discount_pct_def is_promo_candidate_def promo_truncate_sel)

lemma row_truncate_sel:
  "item_code (row.truncate r) = item_code r"
  "date_of_sale (row.truncate r) = date_of_sale r"
  "rrp (row.truncate r) = rrp r"
  "unit_price (row.truncate r) = unit_price r"
  by (simp_all add: row.defs)

lemma row_truncate_calc:
  "calc_discount_pct (row.truncate r) = calc_discount_pct r"
  "is_promo_candidate (row.truncate r) = is_promo_candidate r"
  by (simp_all add: calc_discount_pct_def is_promo_candidate_def row_truncate_sel)

lemma main_discount_pct:
  assumes "r \<in> set (main df)"
  shows "discount_pct r = calc_discount_pct r"
  using detect_promos_cells(1) [OF main_promo_mem [OF assms]]
  by (simp add: promo_truncate_sel promo_truncate_calc)

lemma main_is_promo:
  assumes "r \<in> set (main df)"
  shows "is_promo r =
    (num_ge (discount_pct r) PROMO_MIN_DISCOUNT_PCT \<and> num_ge (promo_days_count r) PROMO_MIN_DAYS)"
  using detect_promos_cells(3) [OF main_promo_mem [OF assms]] main_discount_pct [OF assms]
  by (simp add: promo_truncate_sel promo_truncate_calc is_promo_candidate_def)

lemma main_candidate:
  assumes "r \<in> set (main df)"
  shows "is_promo_candidate r = num_ge (discount_pct r) PROMO_MIN_DISCOUNT_PCT"
  by (simp add: is_promo_candidate_def main_discount_pct [OF assms])

lemma main_promo_days_count:
  assumes "r \<in> set (main df)"
  shows "promo_days_count r =
    Some (of_nat (nunique (dropna (map date_of_sale
      (filter (\<lambda>r'. item_code r' = item_code r \<and>
                     num_ge (discount_pct r') PROMO_MIN_DISCOUNT_PCT) (main df))))))"
proof -
  let ?k = "item_code r"
  have "promo_days_count r = fillna (Some 0) (merge_count (promo_days df) ?k)"
    using detect_promos_cells(2) [OF main_promo_mem [OF assms]]
    by (simp add: promo_truncate_sel)
  also have "\<dots> = Some (of_nat (nunique (dropna (map date_of_sale
      (filter (\<lambda>r'. item_code r' = ?k) (filter is_promo_candidate df))))))"
    unfolding promo_days_def
    by (rule merge_count_fill) (simp add: nunique_def dropna_def)
  also have "map date_of_sale (filter (\<lambda>r'. item_code r' = ?k) (filter is_promo_candidate df)) =
      map date_of_sale (filter (\<lambda>r'. item_code r' = ?k \<and> is_promo_candidate r') df)"
    by (simp add: conj_commute)
  also have "\<dots> = map date_of_sale
      (filter (\<lambda>r'. item_code r' = ?k \<and> is_promo_candidate r') (main df))"
    by (rule map_filter_via [OF main_row, symmetric])
       (simp_all add: row_truncate_sel row_truncate_calc)
  also have "filter (\<lambda>r'. item_code r' = ?k \<and> is_promo_candidate r') (main df) =
      filter (\<lambda>r'. item_code r' = ?k \<and> num_ge (discount_pct r') PROMO_MIN_DISCOUNT_PCT) (main df)"
    by (rule filter_cong) (simp_all add: main_candidate)
  finally show ?thesis .
qed

lemma uplift_truncate_sel:
  "item_code (uplift_row.truncate r) = item_code r"
  "quantity (uplift_row.truncate r) = quantity r"
  "unit_price (uplift_row.truncate r) = unit_price r"
  "store_name (uplift_row.truncate r) = store_name r"
  "is_promo (uplift_row.truncate r) = is_promo r"
  "baseline_units (uplift_row.truncate r) = baseline_units r"
  "promo_avg_units (uplift_row.truncate r) = promo_avg_units r"
  "promo_uplift_pct (uplift_row.truncate r) = promo_uplift_pct r"
  "groupby_cols (uplift_row.truncate r) = groupby_cols r"
  by (simp_all add: uplift_row.defs groupby_cols_def)

lemma main_item_quantities:
  "map quantity (filter (\<lambda>r'. item_code r' = k \<and> P (is_promo r')) (main df)) =
   map quantity (filter (\<lambda>r'. item_code r' = k) (filter (\<lambda>r'. P (is_promo r')) (detect_promos df)))"
proof -
  have "map quantity (filter (\<lambda>r'. item_code r' = k \<and> P (is_promo r')) (main df)) =
        map quantity (filter (\<lambda>r'. item_code r' = k \<and> P (is_promo r')) (detect_promos df))"
    by (rule map_filter_via [OF main_promo]) (simp_all add: promo_truncate_sel)
  then show ?thesis by (simp add: conj_commute)
qed

lemma main_baseline_units:
  assumes "r \<in> set (main df)"
  shows "baseline_units r = fillna (quantity r) (mean (map quantity
      (filter (\<lambda>r'. item_code r' = item_code r \<and> \<not> is_promo r') (main df))))"
  using calculate_uplift_cells(1) [OF main_uplift_mem [OF assms]]
  by (simp add: uplift_truncate_sel baseline_def merge_num_mean
      main_item_quantities [where P = Not])

lemma main_promo_avg_units:
  assumes "r \<in> set (main df)"
  shows "promo_avg_units r = fillna (Some 0) (mean (map quantity
      (filter (\<lambda>r'. item_code r' = item_code r \<and> is_promo r') (main df))))"
  using calculate_uplift_cells(2) [OF main_uplift_mem [OF assms]]
  by (simp add: uplift_truncate_sel promo_avg_def merge_num_mean
      main_item_quantities [where P = "\<lambda>b. b"])

lemma main_promo_uplift_pct:
  assumes "r \<in> set (main df)"
  shows "promo_uplift_pct r =
     (if is_promo r \<and> num_gt (baseline_units r) 0
      then num_mul (num_div (num_sub (promo_avg_units r) (baseline_units r))
             (baseline_units r)) (Some 100)
      else Some 0)"
  using calculate_uplift_cells(3) [OF main_uplift_mem [OF assms]]
  by (simp add: uplift_truncate_sel conj_commute)

lemma priced_truncate_sel:
  "item_code (priced_row.truncate r) = item_code r"
  "store_name (priced_row.truncate r) = store_name r"
  "unit_price (priced_row.truncate r) = unit_price r"
  "is_promo (priced_row.truncate r) = is_promo r"
  "group_avg_price (priced_row.truncate r) = group_avg_price r"
  "price_index_vs_comp (priced_row.truncate r) = price_index_vs_comp r"
  "groupby_cols (priced_row.truncate r) = groupby_cols r"
  by (simp_all add: priced_row.defs groupby_cols_def)

lemma main_group_avg_price:
  assumes "r \<in> set (main df)"
  shows "group_avg_price r = mean (map unit_price
      (filter (\<lambda>r'. groupby_cols r' = groupby_cols r) (main df)))"
proof -
  have "map unit_price (filter (\<lambda>r'. groupby_cols r' = groupby_cols r) (main df)) =
        map unit_price (filter (\<lambda>r'. groupby_cols r' = groupby_cols r)
          (calculate_uplift (detect_promos df)))"
    by (rule map_filter_via [OF main_uplift]) (simp_all add: uplift_truncate_sel)
  then show ?thesis
    using calculate_price_index_cells(1) [OF main_priced_mem [OF assms]]
    by (simp add: priced_truncate_sel avg_prices_def merge_num_mean)
qed

lemma main_price_index_vs_comp:
  assumes "r \<in> set (main df)"
  shows "price_index_vs_comp r =
     (if num_gt (group_avg_price r) 0 then num_div (unit_price r) (group_avg_price r)
      else Some 1)"
  using calculate_price_index_cells(2) [OF main_priced_mem [OF assms]]
  by (simp add: priced_truncate_sel)

lemma main_store_names:
  "map store_name (filter (\<lambda>r'. item_code r' = k \<and> is_promo r') (main df)) =
   map store_name (filter (\<lambda>r'. item_code r' = k)
     (filter is_promo (calculate_price_index (calculate_uplift (detect_promos df)))))"
proof -
  have "map store_name (filter (\<lambda>r'. item_code r' = k \<and> is_promo r') (main df)) =
        map store_name (filter (\<lambda>r'. item_code r' = k \<and> is_promo r')
          (calculate_price_index (calculate_uplift (detect_promos df))))"
    by (rule map_filter_via [OF main_priced]) (simp_all add: priced_truncate_sel)
  then show ?thesis by (simp add: conj_commute)
qed

lemma main_all_store_names:
  "map store_name (calculate_price_index (calculate_uplift (detect_promos df))) =
   map store_name (main df)"
  using map_filter_via [OF main_priced, of "\<lambda>_. True" "\<lambda>_. True" store_name store_name df]
  by (simp add: priced_truncate_sel)

lemma main_promo_store_count:
  assumes "r \<in> set (main df)"
  shows "promo_store_count r = Some (of_nat (nunique (map store_name
      (filter (\<lambda>r'. item_code r' = item_code r \<and> is_promo r') (main df)))))"
proof -
  have "r \<in> set (calculate_promo_coverage
          (calculate_price_index (calculate_uplift (detect_promos df))))"
    using assms by (simp add: main_def Let_def)
  from calculate_promo_coverage_cells(1) [OF this]
  have "promo_store_count r = fillna (Some 0) (merge_count
      (promo_coverage (calculate_price_index (calculate_uplift (detect_promos df))))
      (item_code r))" .
  also have "\<dots> = Some (of_nat (nunique (map store_name
      (filter (\<lambda>r'. item_code r' = item_code r)
        (filter is_promo (calculate_price_index (calculate_uplift (detect_promos df))))))))"
    unfolding promo_coverage_def
    by (rule merge_count_fill) (simp add: nunique_def)
  finally show ?thesis by (simp add: main_store_names)
qed

lemma main_promo_coverage_pct:
  assumes "r \<in> set (main df)"
  shows "promo_coverage_pct r =
     num_mul (num_div (promo_store_count r) (Some (of_nat (nunique (map store_name (main df))))))
       (Some 100)"
proof -
  have "r \<in> set (calculate_promo_coverage
          (calculate_price_index (calculate_uplift (detect_promos df))))"
    using assms by (simp add: main_def Let_def)
  from calculate_promo_coverage_cells(2) [OF this] show ?thesis
    by (simp add: main_all_store_names)
qed

lemma nunique_mono: "set xs \<subseteq> set ys \<Longrightarrow> nunique xs \<le> nunique ys"
  by (simp add: nunique_card card_mono)

lemma nunique_pos: "xs \<noteq> [] \<Longrightarrow> 0 < nunique xs"
  by (cases xs) (simp_all add: nunique_card card_gt_0_iff)

lemma examples_produced_by_cleaning:
  "produced_by_cleaning df_sku"
  "produced_by_cleaning df_missing_quantity"
  "produced_by_cleaning df_negative_prices"
  "produced_by_cleaning df_zero_rrp"
  "produced_by_cleaning df_missing_sales"
  "produced_by_cleaning df_round_trip"
  "produced_by_cleaning df_missing_sales_priced"
  by code_simp+

lemma df_sku_mem: "i < 6 \<Longrightarrow> main df_sku ! i \<in> set (main df_sku)"
  by (rule nth_mem) (simp add: main_length df_sku_def)

text \<open>
  The count of distinct dates read as a cardinality: the dates on which some row
  satisfying \<open>P\<close>, in whatever store, was sold.
\<close>

lemma nunique_dates_card:
  "nunique (dropna (map date_of_sale (filter P rows))) =
     card {d. \<exists>r' \<in> set rows. P r' \<and> date_of_sale r' = Some d}"
proof -
  have "set (dropna (map date_of_sale (filter P rows))) =
        {d. \<exists>r' \<in> set rows. P r' \<and> date_of_sale r' = Some d}"
    by (auto simp: set_dropna image_iff)
  then show ?thesis by (simp add: nunique_card)
qed

lemma coverage_ratio_bounds:
  fixes n t :: nat
  assumes "n \<le> t" and "0 < t"
  shows "0 \<le> (of_nat n :: rat) / of_nat t * 100" and "(of_nat n :: rat) / of_nat t * 100 \<le> 100"
proof -
  show "0 \<le> (of_nat n :: rat) / of_nat t * 100" by simp
  have "(of_nat n :: rat) \<le> of_nat t" using assms(1) by simp
  then have "(of_nat n :: rat) / of_nat t \<le> 1"
    using assms(2) by (simp add: divide_le_eq_1)
  then have "(of_nat n :: rat) / of_nat t * 100 \<le> 1 * 100"
    by (rule mult_right_mono) simp
  then show "(of_nat n :: rat) / of_nat t * 100 \<le> 100" by simp
qed

subsection \<open>Which cells are defined\<close>

lemma mean_defined: "Some v \<in> set xs \<Longrightarrow> mean xs \<noteq> None"
proof -
  assume "Some v \<in> set xs"
  then have "v \<in> set (dropna xs)" by (simp add: set_dropna)
  then have "dropna xs \<noteq> []" by auto
  then show ?thesis by (simp add: mean_def Let_def)
qed

lemma fillna_defined: "v \<noteq> None \<Longrightarrow> fillna v x \<noteq> None"
  by (cases x) (simp_all add: fillna_def)

lemma num_gt_Some: "num_gt x c \<Longrightarrow> \<exists>v. x = Some v \<and> c < v"
  by (cases x) (simp_all add: num_gt_def)

lemma main_promo_avg_defined:
  "r \<in> set (main df) \<Longrightarrow> promo_avg_units r \<noteq> None"
  by (simp add: main_promo_avg_units fillna_defined)

lemma main_promo_uplift_defined:
  assumes "r \<in> set (main df)"
  shows "promo_uplift_pct r \<noteq> None"
proof (cases "is_promo r \<and> num_gt (baseline_units r) 0")
  case True
  then obtain b where b: "baseline_units r = Some b" "0 < b"
    using num_gt_Some by blast
  obtain p where p: "promo_avg_units r = Some p"
    using main_promo_avg_defined [OF assms] by auto
  show ?thesis
    using main_promo_uplift_pct [OF assms] True b p by simp
next
  case False
  then show ?thesis
    using main_promo_uplift_pct [OF assms] by auto
qed

lemma main_promo_coverage_defined:
  assumes "r \<in> set (main df)"
  shows "promo_coverage_pct r \<noteq> None"
proof -
  have "main df \<noteq> []" using assms by auto
  then have "0 < nunique (map store_name (main df))" by (simp add: nunique_pos)
  then show ?thesis
    using main_promo_coverage_pct [OF assms] main_promo_store_count [OF assms] by simp
qed

lemma main_discount_defined:
  assumes "r \<in> set (main df)" and "unit_price r \<noteq> None"
  shows "discount_pct r \<noteq> None"
proof (cases "num_gt (rrp r) 0")
  case True
  then obtain p where "rrp r = Some p" "0 < p"
    using num_gt_Some by blast
  then show ?thesis
    using main_discount_pct [OF assms(1)] assms(2) True
    by (auto simp: calc_discount_pct_def)
next
  case False
  then show ?thesis
    using main_discount_pct [OF assms(1)] by (simp add: calc_discount_pct_def)
qed

lemma main_group_avg_defined:
  assumes "r \<in> set (main df)" and "unit_price r \<noteq> None"
  shows "group_avg_price r \<noteq> None"
proof -
  from assms(2) obtain u where u: "unit_price r = Some u" by auto
  have "r \<in> set (filter (\<lambda>r'. groupby_cols r' = groupby_cols r) (main df))"
    using assms(1) by simp
  then have "unit_price r \<in> unit_price ` set (filter (\<lambda>r'. groupby_cols r' = groupby_cols r) (main df))"
    by (rule imageI)
  then have "Some u \<in> set (map unit_price
      (filter (\<lambda>r'. groupby_cols r' = groupby_cols r) (main df)))"
    using u by simp
  then show ?thesis
    unfolding main_group_avg_price [OF assms(1)] by (rule mean_defined)
qed

lemma main_price_index_defined:
  assumes "r \<in> set (main df)" and "unit_price r \<noteq> None"
  shows "price_index_vs_comp r \<noteq> None"
proof (cases "num_gt (group_avg_price r) 0")
  case True
  then obtain g where "group_avg_price r = Some g" "0 < g"
    using num_gt_Some by blast
  then show ?thesis
    using main_price_index_vs_comp [OF assms(1)] assms(2) True by auto
next
  case False
  then show ?thesis
    using main_price_index_vs_comp [OF assms(1)] by simp
qed

subsection \<open>The columns of the input in the output\<close>

lemma row_truncate_protected:
  "quantity (row.truncate r) = quantity r"
  "total_sales (row.truncate r) = total_sales r"
  "data_quality_flag (row.truncate r) = data_quality_flag r"
  by (simp_all add: row.defs)

lemma main_column:
  assumes "\<And>r. col (row.truncate r) = col' r"
  shows "map col' (main df) = map col df"
proof -
  have "map col' (main df) = map col (map row.truncate (main df))"
    by (simp add: comp_def assms)
  then show ?thesis by (simp only: main_row)
qed

subsection \<open>The unit price the cleaning computes\<close>

lemma drop_duplicates_from_subset: "set (drop_duplicates_from key seen xs) \<subseteq> set xs"
  by (induction xs arbitrary: seen) auto

lemma clean_row_cells:
  "quantity (clean_row ops r) = quantity r"
  "unit_price (clean_row ops r) = calc_unit_price r"
  by (simp_all add: clean_row_def Let_def sale.defs row.defs standardize_text_def)

lemma clean_data_unit_price:
  assumes "r \<in> set (clean_data ops df)"
  shows "unit_price r =
    (if num_gt (quantity r) 0 then num_div (total_sales r) (quantity r) else Some 0)"
proof -
  from assms have "r \<in> set (map (clean_row ops) df)"
    using drop_duplicates_from_subset [of duplicate_cols "[]" "map (clean_row ops) df"]
    by (auto simp: clean_data_def drop_duplicates_def)
  then obtain r0 where "r = clean_row ops r0" by auto
  then show ?thesis
    by (simp add: clean_row_def Let_def sale.defs row.defs standardize_text_def
        calc_unit_price_def)
qed

lemma num_le_not_gt: "num_le x c \<Longrightarrow> \<not> num_gt x c"
  by (cases x) (simp_all add: num_le_def num_gt_def)

lemma nonpositive_quantity_unit_price:
  assumes "r \<in> set (main (clean_data ops df))" and "num_le (quantity r) 0"
  shows "unit_price r = Some 0"
proof -
  have "row.truncate r \<in> set (clean_data ops df)"
    using assms(1) main_row [of "clean_data ops df"] by (metis imageI set_map)
  from clean_data_unit_price [OF this]
  have "unit_price r =
    (if num_gt (quantity r) 0 then num_div (total_sales r) (quantity r) else Some 0)"
    by (simp only: row_truncate_sel row_truncate_protected)
  with num_le_not_gt [OF assms(2)] show ?thesis
    by simp
qed

subsection \<open>Float64 rounding: error bound and evaluation\<close>
















section \<open>The claims\<close>

text \<open>
  C1. For every row of the enriched dataset, \<open>is_promo\<close> is true if and only if the
  row's own \<open>discount_pct\<close> is at least the promo threshold 0.10 and the
  \<open>promo_days_count\<close> of the row's item is at least the minimum run length 2.
\<close>

theorem is_promo_iff:
  assumes "r \<in> set (main df)"
  shows "is_promo r \<longleftrightarrow> num_ge (discount_pct r) (1 / 10) \<and> num_ge (promo_days_count r) 2"
  using main_is_promo [OF assms]
  by (simp add: PROMO_MIN_DISCOUNT_PCT_def PROMO_MIN_DAYS_def)

theorem is_promo_iff_witness:
  "main df_sku ! 0 \<in> set (main df_sku) \<and> is_promo (main df_sku ! 0) \<and>
   num_ge (discount_pct (main df_sku ! 0)) (1 / 10) \<and>
   num_ge (promo_days_count (main df_sku ! 0)) 2"
proof -
  have mem: "main df_sku ! 0 \<in> set (main df_sku)"
    by (simp add: df_sku_mem)
  have "is_promo (main df_sku ! 0)"
    by code_simp
  with is_promo_iff [OF mem] mem show ?thesis
    by simp
qed

text \<open>
  C2. For every item, \<open>promo_days_count\<close> equals the number of distinct sale dates,
  taken across all stores of the whole dataset, on which at least one promo-candidate
  row (\<open>discount_pct\<close> at least 0.10) of that item exists; an item with no candidate
  row gets \<open>promo_days_count = 0\<close> on every one of its rows. The rows counted are
  selected by item and discount only, never by store. A row without a sale date (NaT)
  contributes no date.
\<close>

theorem promo_days_count_distinct_dates:
  assumes "r \<in> set (main df)"
  shows "promo_days_count r =
      Some (of_nat (card {d. \<exists>r' \<in> set (main df). item_code r' = item_code r \<and>
        num_ge (discount_pct r') (1 / 10) \<and> date_of_sale r' = Some d})) \<and>
    promo_days_count r =
      Some (of_nat (nunique (dropna (map date_of_sale
        (filter (\<lambda>r'. item_code r' = item_code r \<and> num_ge (discount_pct r') (1 / 10))
          (main df)))))) \<and>
    (filter (\<lambda>r'. item_code r' = item_code r \<and> num_ge (discount_pct r') (1 / 10)) (main df) = []
       \<longrightarrow> promo_days_count r = Some 0)"
proof -
  let ?cand = "filter (\<lambda>r'. item_code r' = item_code r \<and> num_ge (discount_pct r') (1 / 10))
      (main df)"
  have eq: "promo_days_count r = Some (of_nat (nunique (dropna (map date_of_sale ?cand))))"
    using main_promo_days_count [OF assms] by (simp add: PROMO_MIN_DISCOUNT_PCT_def)
  have "nunique (dropna (map date_of_sale ?cand)) =
      card {d. \<exists>r' \<in> set (main df). (item_code r' = item_code r \<and>
        num_ge (discount_pct r') (1 / 10)) \<and> date_of_sale r' = Some d}"
    by (rule nunique_dates_card)
  then have card: "promo_days_count r =
      Some (of_nat (card {d. \<exists>r' \<in> set (main df). item_code r' = item_code r \<and>
        num_ge (discount_pct r') (1 / 10) \<and> date_of_sale r' = Some d}))"
    using eq by (simp add: conj_assoc)
  have zero: "promo_days_count r = Some 0" if "?cand = []"
    using that eq by (simp add: nunique_def dropna_def)
  from card eq zero show ?thesis by blast
qed

theorem promo_days_count_distinct_dates_witness:
  "main df_sku ! 0 \<in> set (main df_sku) \<and>
   promo_days_count (main df_sku ! 0) = Some 2 \<and>
   map store_name (filter (\<lambda>r'. item_code r' = item_code (main df_sku ! 0) \<and>
       num_ge (discount_pct r') (1 / 10)) (main df_sku)) = [''A'', ''B''] \<and>
   main df_sku ! 3 \<in> set (main df_sku) \<and>
   filter (\<lambda>r'. item_code r' = item_code (main df_sku ! 3) \<and>
       num_ge (discount_pct r') (1 / 10)) (main df_sku) = [] \<and>
   promo_days_count (main df_sku ! 3) = Some 0"
proof -
  have mem0: "main df_sku ! 0 \<in> set (main df_sku)" and mem3: "main df_sku ! 3 \<in> set (main df_sku)"
    by (simp_all add: df_sku_mem)
  have days: "nunique (dropna (map date_of_sale
        (filter (\<lambda>r'. item_code r' = item_code (main df_sku ! 0) \<and>
           num_ge (discount_pct r') (1 / 10)) (main df_sku)))) = 2"
    by code_simp
  have stores: "map store_name (filter (\<lambda>r'. item_code r' = item_code (main df_sku ! 0) \<and>
       num_ge (discount_pct r') (1 / 10)) (main df_sku)) = [''A'', ''B'']"
    by code_simp
  have none: "filter (\<lambda>r'. item_code r' = item_code (main df_sku ! 3) \<and>
       num_ge (discount_pct r') (1 / 10)) (main df_sku) = []"
    by code_simp
  from promo_days_count_distinct_dates [OF mem0]
  have "promo_days_count (main df_sku ! 0) =
      Some (of_nat (nunique (dropna (map date_of_sale
        (filter (\<lambda>r'. item_code r' = item_code (main df_sku ! 0) \<and>
           num_ge (discount_pct r') (1 / 10)) (main df_sku))))))"
    by blast
  then have "promo_days_count (main df_sku ! 0) = Some 2"
    unfolding days by simp
  moreover from promo_days_count_distinct_dates [OF mem3] none
  have "promo_days_count (main df_sku ! 3) = Some 0" by blast
  ultimately show ?thesis using mem0 mem3 stores none by blast
qed

text \<open>
  C3, as the code has it. For every row, \<open>promo_uplift_pct\<close> equals
  \<open>(promo_avg_units - baseline_units) / baseline_units * 100\<close> exactly when the row has
  \<open>is_promo\<close> true and \<open>baseline_units > 0\<close>, and equals 0 otherwise.
  \<open>baseline_units\<close> is the mean of the recorded quantities over the item's non-promo
  rows, and the row's own quantity when there is no such mean: the item has no
  non-promo row, or none with a recorded quantity. \<open>promo_avg_units\<close> is the mean of
  the recorded quantities over the item's promo rows, and 0 when there is no such mean.
\<close>

theorem promo_uplift_pct_formula:
  assumes "r \<in> set (main df)"
  shows "promo_uplift_pct r =
      (if is_promo r \<and> num_gt (baseline_units r) 0
       then num_mul (num_div (num_sub (promo_avg_units r) (baseline_units r))
              (baseline_units r)) (Some 100)
       else Some 0) \<and>
    baseline_units r = fillna (quantity r) (mean (map quantity
      (filter (\<lambda>r'. item_code r' = item_code r \<and> \<not> is_promo r') (main df)))) \<and>
    promo_avg_units r = fillna (Some 0) (mean (map quantity
      (filter (\<lambda>r'. item_code r' = item_code r \<and> is_promo r') (main df)))) \<and>
    (filter (\<lambda>r'. item_code r' = item_code r \<and> \<not> is_promo r') (main df) = []
       \<longrightarrow> baseline_units r = quantity r) \<and>
    (filter (\<lambda>r'. item_code r' = item_code r \<and> is_promo r') (main df) = []
       \<longrightarrow> promo_avg_units r = Some 0)"
proof -
  have b: "baseline_units r = fillna (quantity r) (mean (map quantity
      (filter (\<lambda>r'. item_code r' = item_code r \<and> \<not> is_promo r') (main df))))"
    by (rule main_baseline_units [OF assms])
  have p: "promo_avg_units r = fillna (Some 0) (mean (map quantity
      (filter (\<lambda>r'. item_code r' = item_code r \<and> is_promo r') (main df))))"
    by (rule main_promo_avg_units [OF assms])
  have b0: "baseline_units r = quantity r"
    if "filter (\<lambda>r'. item_code r' = item_code r \<and> \<not> is_promo r') (main df) = []"
    using that b by (simp add: mean_Nil fillna_def)
  have p0: "promo_avg_units r = Some 0"
    if "filter (\<lambda>r'. item_code r' = item_code r \<and> is_promo r') (main df) = []"
    using that p by (simp add: mean_Nil fillna_def)
  from main_promo_uplift_pct [OF assms] b p b0 p0 show ?thesis
    by blast
qed

theorem promo_uplift_pct_formula_witness:
  "main df_sku ! 0 \<in> set (main df_sku) \<and>
   is_promo (main df_sku ! 0) \<and>
   baseline_units (main df_sku ! 0) = Some 4 \<and>
   promo_avg_units (main df_sku ! 0) = Some 6 \<and>
   promo_uplift_pct (main df_sku ! 0) = Some 50 \<and>
   main df_sku ! 4 \<in> set (main df_sku) \<and>
   filter (\<lambda>r'. item_code r' = item_code (main df_sku ! 4) \<and> \<not> is_promo r') (main df_sku) = [] \<and>
   baseline_units (main df_sku ! 4) = Some 10 \<and>
   main df_sku ! 3 \<in> set (main df_sku) \<and>
   filter (\<lambda>r'. item_code r' = item_code (main df_sku ! 3) \<and> is_promo r') (main df_sku) = [] \<and>
   promo_avg_units (main df_sku ! 3) = Some 0"
proof -
  have mem: "main df_sku ! 0 \<in> set (main df_sku)"
    and mem4: "main df_sku ! 4 \<in> set (main df_sku)"
    and mem3: "main df_sku ! 3 \<in> set (main df_sku)"
    by (simp_all add: df_sku_mem)
  have promo: "is_promo (main df_sku ! 0)"
    by code_simp
  have b: "fillna (quantity (main df_sku ! 0)) (mean (map quantity
      (filter (\<lambda>r'. item_code r' = item_code (main df_sku ! 0) \<and> \<not> is_promo r')
        (main df_sku)))) = Some 4"
    by code_simp
  have p: "fillna (Some 0) (mean (map quantity
      (filter (\<lambda>r'. item_code r' = item_code (main df_sku ! 0) \<and> is_promo r')
        (main df_sku)))) = Some 6"
    by code_simp
  have no_base: "filter (\<lambda>r'. item_code r' = item_code (main df_sku ! 4) \<and> \<not> is_promo r')
      (main df_sku) = []"
    by code_simp
  have q4: "quantity (main df_sku ! 4) = Some 10"
    by code_simp
  have no_promo: "filter (\<lambda>r'. item_code r' = item_code (main df_sku ! 3) \<and> is_promo r')
      (main df_sku) = []"
    by code_simp
  from promo_uplift_pct_formula [OF mem] b p
  have bu: "baseline_units (main df_sku ! 0) = Some 4"
    and pa: "promo_avg_units (main df_sku ! 0) = Some 6"
    and up: "promo_uplift_pct (main df_sku ! 0) =
      (if is_promo (main df_sku ! 0) \<and> num_gt (baseline_units (main df_sku ! 0)) 0
       then num_mul (num_div (num_sub (promo_avg_units (main df_sku ! 0))
              (baseline_units (main df_sku ! 0))) (baseline_units (main df_sku ! 0))) (Some 100)
       else Some 0)"
    by simp_all
  have u50: "promo_uplift_pct (main df_sku ! 0) = Some 50"
    by (simp add: up bu pa promo num_gt_def)
  from promo_uplift_pct_formula [OF mem4] no_base q4
  have b4: "baseline_units (main df_sku ! 4) = Some 10" by metis
  from promo_uplift_pct_formula [OF mem3] no_promo
  have p3: "promo_avg_units (main df_sku ! 3) = Some 0" by blast
  from mem promo bu pa u50 mem4 no_base b4 mem3 no_promo p3 show ?thesis by blast
qed

text \<open>
  C3 as stated lets the baseline default to the row's own quantity only when the item
  has no non-promo row. In \<open>df_missing_quantity\<close> the item has a non-promo row (row 0),
  whose quantity is missing; the promo row 1 still gets its own quantity 5 as baseline,
  and an uplift of 20.
\<close>

theorem baseline_default_counterexample:
  "length (main df_missing_quantity) = 3 \<and>
   item_code (main df_missing_quantity ! 0) = item_code (main df_missing_quantity ! 1) \<and>
   \<not> is_promo (main df_missing_quantity ! 0) \<and>
   quantity (main df_missing_quantity ! 0) = None \<and>
   is_promo (main df_missing_quantity ! 1) \<and>
   is_promo (main df_missing_quantity ! 2) \<and>
   quantity (main df_missing_quantity ! 1) = Some 5 \<and>
   filter (\<lambda>r'. item_code r' = item_code (main df_missing_quantity ! 1) \<and> \<not> is_promo r')
     (main df_missing_quantity) \<noteq> [] \<and>
   mean (map quantity
     (filter (\<lambda>r'. item_code r' = item_code (main df_missing_quantity ! 1) \<and> \<not> is_promo r')
       (main df_missing_quantity))) = None \<and>
   baseline_units (main df_missing_quantity ! 1) = Some 5 \<and>
   promo_uplift_pct (main df_missing_quantity ! 1) = Some 20"
  by code_simp

text \<open>
  C4, as the code has it. For every row, \<open>group_avg_price\<close> equals the mean unit price
  over all rows sharing the row's (sub-department, section, store) cohort, whatever
  their supplier (Bidco rows included), and \<open>price_index_vs_comp\<close> equals
  \<open>unit_price / group_avg_price\<close> when the group average is strictly positive, and 1.0
  otherwise: when the group average is zero, negative or missing.
\<close>

theorem price_index_vs_group_average:
  assumes "r \<in> set (main df)"
  shows "group_avg_price r = mean (map unit_price
      (filter (\<lambda>r'. sub_department r' = sub_department r \<and> section_name r' = section_name r \<and>
                     store_name r' = store_name r) (main df))) \<and>
    price_index_vs_comp r =
      (if num_gt (group_avg_price r) 0 then num_div (unit_price r) (group_avg_price r)
       else Some 1)"
  using main_group_avg_price [OF assms] main_price_index_vs_comp [OF assms]
  by (simp add: groupby_cols_def)

theorem price_index_vs_group_average_witness:
  "main df_sku ! 1 \<in> set (main df_sku) \<and>
   group_avg_price (main df_sku ! 1) = Some 95 \<and>
   price_index_vs_comp (main df_sku ! 1) = Some (17 / 19)"
proof -
  have mem: "main df_sku ! 1 \<in> set (main df_sku)"
    by (simp add: df_sku_mem)
  have g: "mean (map unit_price
      (filter (\<lambda>r'. sub_department r' = sub_department (main df_sku ! 1) \<and>
                     section_name r' = section_name (main df_sku ! 1) \<and>
                     store_name r' = store_name (main df_sku ! 1)) (main df_sku))) = Some 95"
    by code_simp
  have u: "unit_price (main df_sku ! 1) = Some 85"
    by code_simp
  from price_index_vs_group_average [OF mem] g
  have avg: "group_avg_price (main df_sku ! 1) = Some 95"
    and idx: "price_index_vs_comp (main df_sku ! 1) =
      (if num_gt (group_avg_price (main df_sku ! 1)) 0
       then num_div (unit_price (main df_sku ! 1)) (group_avg_price (main df_sku ! 1))
       else Some 1)"
    by simp_all
  have "price_index_vs_comp (main df_sku ! 1) = Some (17 / 19)"
    unfolding idx avg u by (simp add: num_gt_def)
  with mem avg show ?thesis by simp
qed

text \<open>
  C4 as stated defaults the index to 1.0 exactly when the group average is 0. In
  \<open>df_negative_prices\<close> the group average is -2, the quotient of the first row would
  be 1/2, and the index is 1.
\<close>

theorem price_index_default_counterexample:
  "group_avg_price (main df_negative_prices ! 0) = Some (- 2) \<and>
   unit_price (main df_negative_prices ! 0) = Some (- 1) \<and>
   num_div (unit_price (main df_negative_prices ! 0)) (group_avg_price (main df_negative_prices ! 0))
     = Some (1 / 2) \<and>
   group_avg_price (main df_negative_prices ! 0) \<noteq> Some 0 \<and>
   price_index_vs_comp (main df_negative_prices ! 0) = Some 1 \<and>
   price_index_vs_comp (main df_negative_prices ! 0) \<noteq>
     num_div (unit_price (main df_negative_prices ! 0))
       (group_avg_price (main df_negative_prices ! 0))"
  by code_simp

text \<open>
  C5, as the code has it. No division by zero of the four passes reaches an output
  cell. In every output row \<open>promo_days_count\<close>, \<open>promo_avg_units\<close>, \<open>promo_uplift_pct\<close>,
  \<open>promo_store_count\<close> and \<open>promo_coverage_pct\<close> are defined numbers; \<open>discount_pct\<close>,
  \<open>group_avg_price\<close> and \<open>price_index_vs_comp\<close> are defined numbers when the row's
  unit price is, and \<open>baseline_units\<close> when the row's quantity is. The degenerate cases
  take the fallbacks: \<open>discount_pct = 0\<close> when the RRP is not positive,
  \<open>promo_uplift_pct = 0\<close> when the baseline is not positive, \<open>price_index_vs_comp = 1\<close>
  when the group average is not positive.
\<close>

theorem enrichment_cells_defined:
  assumes "r \<in> set (main df)"
  shows "promo_days_count r \<noteq> None \<and> promo_avg_units r \<noteq> None \<and>
    promo_uplift_pct r \<noteq> None \<and> promo_store_count r \<noteq> None \<and>
    promo_coverage_pct r \<noteq> None \<and>
    (unit_price r \<noteq> None \<longrightarrow>
       discount_pct r \<noteq> None \<and> group_avg_price r \<noteq> None \<and> price_index_vs_comp r \<noteq> None) \<and>
    (quantity r \<noteq> None \<longrightarrow> baseline_units r \<noteq> None) \<and>
    (\<not> num_gt (rrp r) 0 \<longrightarrow> discount_pct r = Some 0) \<and>
    (\<not> num_gt (baseline_units r) 0 \<longrightarrow> promo_uplift_pct r = Some 0) \<and>
    (\<not> num_gt (group_avg_price r) 0 \<longrightarrow> price_index_vs_comp r = Some 1)"
proof (intro conjI impI)
  show "promo_days_count r \<noteq> None"
    by (simp add: main_promo_days_count [OF assms])
  show "promo_avg_units r \<noteq> None"
    by (rule main_promo_avg_defined [OF assms])
  show "promo_uplift_pct r \<noteq> None"
    by (rule main_promo_uplift_defined [OF assms])
  show "promo_store_count r \<noteq> None"
    by (simp add: main_promo_store_count [OF assms])
  show "promo_coverage_pct r \<noteq> None"
    by (rule main_promo_coverage_defined [OF assms])
  show "discount_pct r \<noteq> None" if "unit_price r \<noteq> None"
    by (rule main_discount_defined [OF assms that])
  show "group_avg_price r \<noteq> None" if "unit_price r \<noteq> None"
    by (rule main_group_avg_defined [OF assms that])
  show "price_index_vs_comp r \<noteq> None" if "unit_price r \<noteq> None"
    by (rule main_price_index_defined [OF assms that])
  show "baseline_units r \<noteq> None" if "quantity r \<noteq> None"
    using that by (simp add: main_baseline_units [OF assms] fillna_defined)
  show "discount_pct r = Some 0" if "\<not> num_gt (rrp r) 0"
    using that main_discount_pct [OF assms] by (simp add: calc_discount_pct_def)
  show "promo_uplift_pct r = Some 0" if "\<not> num_gt (baseline_units r) 0"
    using that main_promo_uplift_pct [OF assms] by simp
  show "price_index_vs_comp r = Some 1" if "\<not> num_gt (group_avg_price r) 0"
    using that main_price_index_vs_comp [OF assms] by simp
qed

theorem enrichment_cells_defined_witness:
  "main df_sku ! 0 \<in> set (main df_sku) \<and>
   unit_price (main df_sku ! 0) \<noteq> None \<and> quantity (main df_sku ! 0) \<noteq> None \<and>
   discount_pct (main df_sku ! 0) \<noteq> None \<and> group_avg_price (main df_sku ! 0) \<noteq> None \<and>
   price_index_vs_comp (main df_sku ! 0) \<noteq> None \<and> baseline_units (main df_sku ! 0) \<noteq> None \<and>
   promo_uplift_pct (main df_sku ! 0) \<noteq> None \<and> promo_coverage_pct (main df_sku ! 0) \<noteq> None \<and>
   \<not> num_gt (rrp (main df_zero_rrp ! 0)) 0 \<and> discount_pct (main df_zero_rrp ! 0) = Some 0 \<and>
   \<not> num_gt (baseline_units (main df_missing_quantity ! 0)) 0 \<and>
   promo_uplift_pct (main df_missing_quantity ! 0) = Some 0 \<and>
   \<not> num_gt (group_avg_price (main df_negative_prices ! 0)) 0 \<and>
   price_index_vs_comp (main df_negative_prices ! 0) = Some 1"
proof -
  have mem: "main df_sku ! 0 \<in> set (main df_sku)"
    by (simp add: df_sku_mem)
  have memz: "main df_zero_rrp ! 0 \<in> set (main df_zero_rrp)"
    by (rule nth_mem) (simp add: main_length df_zero_rrp_def)
  have memq: "main df_missing_quantity ! 0 \<in> set (main df_missing_quantity)"
    by (rule nth_mem) (simp add: main_length df_missing_quantity_def)
  have memn: "main df_negative_prices ! 0 \<in> set (main df_negative_prices)"
    by (rule nth_mem) (simp add: main_length df_negative_prices_def)
  have u: "unit_price (main df_sku ! 0) \<noteq> None" and q: "quantity (main df_sku ! 0) \<noteq> None"
    by code_simp+
  have z: "\<not> num_gt (rrp (main df_zero_rrp ! 0)) 0"
    by code_simp
  have b: "\<not> num_gt (baseline_units (main df_missing_quantity ! 0)) 0"
    by code_simp
  have g: "\<not> num_gt (group_avg_price (main df_negative_prices ! 0)) 0"
    by code_simp
  from enrichment_cells_defined [OF mem] u q
  have "discount_pct (main df_sku ! 0) \<noteq> None \<and> group_avg_price (main df_sku ! 0) \<noteq> None \<and>
    price_index_vs_comp (main df_sku ! 0) \<noteq> None \<and> baseline_units (main df_sku ! 0) \<noteq> None \<and>
    promo_uplift_pct (main df_sku ! 0) \<noteq> None \<and> promo_coverage_pct (main df_sku ! 0) \<noteq> None"
    by blast
  moreover from enrichment_cells_defined [OF memz] z
  have "discount_pct (main df_zero_rrp ! 0) = Some 0" by blast
  moreover from enrichment_cells_defined [OF memq] b
  have "promo_uplift_pct (main df_missing_quantity ! 0) = Some 0" by blast
  moreover from enrichment_cells_defined [OF memn] g
  have "price_index_vs_comp (main df_negative_prices ! 0) = Some 1" by blast
  ultimately show ?thesis using mem u q z b g by blast
qed

text \<open>
  C5 as stated makes every enrichment cell of every output row a defined number. A
  missing unit price of the input reaches \<open>discount_pct\<close> and \<open>group_avg_price\<close>
  (\<open>df_missing_sales\<close>: the mean over a cohort without any recorded price has no
  fallback), and a missing quantity reaches \<open>baseline_units\<close> (\<open>df_missing_quantity\<close>:
  the fallback is the missing quantity itself). In a cohort that has a priced row the
  missing unit price reaches \<open>price_index_vs_comp\<close> (\<open>df_missing_sales_priced\<close>).
\<close>

theorem enrichment_cells_defined_counterexample:
  "unit_price (main df_missing_sales ! 0) = None \<and>
   discount_pct (main df_missing_sales ! 0) = None \<and>
   group_avg_price (main df_missing_sales ! 0) = None \<and>
   quantity (main df_missing_quantity ! 0) = None \<and>
   baseline_units (main df_missing_quantity ! 0) = None \<and>
   unit_price (main df_missing_sales_priced ! 0) = None \<and>
   group_avg_price (main df_missing_sales_priced ! 0) = Some 50 \<and>
   price_index_vs_comp (main df_missing_sales_priced ! 0) = None"
  by code_simp




text \<open>
  C7. For every row, \<open>discount_pct\<close> equals \<open>(rrp - unit_price) / rrp\<close> when \<open>rrp > 0\<close>
  and 0 otherwise; a row with \<open>rrp = 0\<close> has \<open>discount_pct = 0\<close>, is not a promo
  candidate and is not a promo row.
\<close>

theorem discount_pct_formula:
  assumes "r \<in> set (main df)"
  shows "discount_pct r =
      (if num_gt (rrp r) 0 then num_div (num_sub (rrp r) (unit_price r)) (rrp r) else Some 0) \<and>
    (rrp r = Some 0 \<longrightarrow>
       discount_pct r = Some 0 \<and> \<not> num_ge (discount_pct r) (1 / 10) \<and> \<not> is_promo r)"
proof -
  have d: "discount_pct r =
      (if num_gt (rrp r) 0 then num_div (num_sub (rrp r) (unit_price r)) (rrp r) else Some 0)"
    using main_discount_pct [OF assms] by (simp add: calc_discount_pct_def)
  have "discount_pct r = Some 0 \<and> \<not> num_ge (discount_pct r) (1 / 10) \<and> \<not> is_promo r"
    if "rrp r = Some 0"
    using that d main_is_promo [OF assms]
    by (simp add: num_gt_def num_ge_def PROMO_MIN_DISCOUNT_PCT_def)
  with d show ?thesis by blast
qed

theorem discount_pct_formula_witness:
  "main df_sku ! 0 \<in> set (main df_sku) \<and>
   num_gt (rrp (main df_sku ! 0)) 0 \<and>
   discount_pct (main df_sku ! 0) = Some (3 / 20) \<and>
   main df_zero_rrp ! 0 \<in> set (main df_zero_rrp) \<and>
   rrp (main df_zero_rrp ! 0) = Some 0 \<and>
   discount_pct (main df_zero_rrp ! 0) = Some 0 \<and>
   \<not> is_promo (main df_zero_rrp ! 0)"
proof -
  have mem: "main df_sku ! 0 \<in> set (main df_sku)"
    by (simp add: df_sku_mem)
  have memz: "main df_zero_rrp ! 0 \<in> set (main df_zero_rrp)"
    by (rule nth_mem) (simp add: main_length df_zero_rrp_def)
  have p: "rrp (main df_sku ! 0) = Some 100" and u: "unit_price (main df_sku ! 0) = Some 85"
    by code_simp+
  have z: "rrp (main df_zero_rrp ! 0) = Some 0"
    by code_simp
  from discount_pct_formula [OF mem] p u
  have "discount_pct (main df_sku ! 0) = Some (3 / 20)"
    by (simp add: num_gt_def)
  moreover from discount_pct_formula [OF memz] z
  have "discount_pct (main df_zero_rrp ! 0) = Some 0 \<and> \<not> is_promo (main df_zero_rrp ! 0)"
    by blast
  ultimately show ?thesis using mem memz p z by (simp add: num_gt_def)
qed

text \<open>
  C8. For every row of the enriched dataset, \<open>promo_coverage_pct\<close> lies within
  [0, 100] and equals \<open>promo_store_count / total_stores * 100\<close>, where \<open>total_stores\<close>
  is the number of distinct stores of the full dataset and \<open>promo_store_count\<close> the
  number of distinct stores among the promo rows of the row's item; every row of an
  item without promo rows has \<open>promo_coverage_pct = 0\<close>.
\<close>

theorem promo_coverage_pct_bounds:
  assumes "r \<in> set (main df)"
  shows "promo_store_count r = Some (of_nat (nunique (map store_name
        (filter (\<lambda>r'. item_code r' = item_code r \<and> is_promo r') (main df))))) \<and>
    promo_coverage_pct r = Some (of_nat (nunique (map store_name
        (filter (\<lambda>r'. item_code r' = item_code r \<and> is_promo r') (main df)))) /
        of_nat (nunique (map store_name (main df))) * 100) \<and>
    num_ge (promo_coverage_pct r) 0 \<and> num_le (promo_coverage_pct r) 100 \<and>
    (filter (\<lambda>r'. item_code r' = item_code r \<and> is_promo r') (main df) = []
       \<longrightarrow> promo_coverage_pct r = Some 0)"
proof -
  let ?promo = "filter (\<lambda>r'. item_code r' = item_code r \<and> is_promo r') (main df)"
  let ?n = "nunique (map store_name ?promo)"
  let ?t = "nunique (map store_name (main df))"
  have count: "promo_store_count r = Some (of_nat ?n)"
    by (rule main_promo_store_count [OF assms])
  have "main df \<noteq> []" using assms by auto
  then have t: "0 < ?t" by (simp add: nunique_pos)
  have n: "?n \<le> ?t" by (rule nunique_mono) auto
  have pct: "promo_coverage_pct r = Some (of_nat ?n / of_nat ?t * 100)"
    using main_promo_coverage_pct [OF assms] count t by simp
  have lo: "num_ge (promo_coverage_pct r) 0" and hi: "num_le (promo_coverage_pct r) 100"
    using coverage_ratio_bounds [OF n t] by (simp_all add: pct num_ge_def num_le_def)
  have zero: "promo_coverage_pct r = Some 0" if "?promo = []"
    using that pct by (simp add: nunique_def)
  from count pct lo hi zero show ?thesis by blast
qed

theorem promo_coverage_pct_bounds_witness:
  "main df_sku ! 4 \<in> set (main df_sku) \<and>
   promo_store_count (main df_sku ! 4) = Some 1 \<and>
   nunique (map store_name (main df_sku)) = 2 \<and>
   promo_coverage_pct (main df_sku ! 4) = Some 50 \<and>
   main df_sku ! 3 \<in> set (main df_sku) \<and>
   filter (\<lambda>r'. item_code r' = item_code (main df_sku ! 3) \<and> is_promo r') (main df_sku) = [] \<and>
   promo_coverage_pct (main df_sku ! 3) = Some 0"
proof -
  have mem4: "main df_sku ! 4 \<in> set (main df_sku)" and mem3: "main df_sku ! 3 \<in> set (main df_sku)"
    by (simp_all add: df_sku_mem)
  have n: "nunique (map store_name
        (filter (\<lambda>r'. item_code r' = item_code (main df_sku ! 4) \<and> is_promo r') (main df_sku))) = 1"
    by code_simp
  have t: "nunique (map store_name (main df_sku)) = 2"
    by code_simp
  have none: "filter (\<lambda>r'. item_code r' = item_code (main df_sku ! 3) \<and> is_promo r')
      (main df_sku) = []"
    by code_simp
  from promo_coverage_pct_bounds [OF mem4]
  have "promo_store_count (main df_sku ! 4) = Some 1 \<and> promo_coverage_pct (main df_sku ! 4) = Some 50"
    unfolding n t by simp
  moreover from promo_coverage_pct_bounds [OF mem3] none
  have "promo_coverage_pct (main df_sku ! 3) = Some 0" by blast
  ultimately show ?thesis using mem4 mem3 t none by blast
qed

text \<open>
  C9. For every cleaned input dataset, each of the four enrichment passes, and hence
  the composed pipeline, leaves the \<open>quantity\<close>, \<open>total_sales\<close>, \<open>rrp\<close> and
  \<open>data_quality_flag\<close> of every row unchanged and drops no row: cutting the added
  columns off the output of a pass gives back its input, row by row and in order.
\<close>

theorem passes_keep_rows:
  "map row.truncate (detect_promos df) = df \<and>
   map promo_row.truncate (calculate_uplift df1) = df1 \<and>
   map uplift_row.truncate (calculate_price_index df2) = df2 \<and>
   map priced_row.truncate (calculate_promo_coverage df3) = df3 \<and>
   map row.truncate (main df) = df \<and>
   length (main df) = length df \<and>
   map quantity (main df) = map quantity df \<and>
   map total_sales (main df) = map total_sales df \<and>
   map rrp (main df) = map rrp df \<and>
   map data_quality_flag (main df) = map data_quality_flag df"
proof (intro conjI)
  show "map row.truncate (detect_promos df) = df"
    by (rule detect_promos_truncate)
  show "map promo_row.truncate (calculate_uplift df1) = df1"
    by (rule calculate_uplift_truncate)
  show "map uplift_row.truncate (calculate_price_index df2) = df2"
    by (rule calculate_price_index_truncate)
  show "map priced_row.truncate (calculate_promo_coverage df3) = df3"
    by (rule calculate_promo_coverage_truncate)
  show "map row.truncate (main df) = df"
    by (rule main_row)
  show "length (main df) = length df"
    by (rule main_length)
  show "map quantity (main df) = map quantity df"
    by (rule main_column) (rule row_truncate_protected)
  show "map total_sales (main df) = map total_sales df"
    by (rule main_column) (rule row_truncate_protected)
  show "map rrp (main df) = map rrp df"
    by (rule main_column) (rule row_truncate_sel)
  show "map data_quality_flag (main df) = map data_quality_flag df"
    by (rule main_column) (rule row_truncate_protected)
qed

text \<open>
  C10. For every cleaned row with \<open>quantity \<le> 0\<close> and \<open>rrp > 0\<close>, the cleaning stage
  has set \<open>unit_price = 0\<close>, so the transformation gives the row \<open>discount_pct = 1\<close> and
  classifies it as a promo candidate, and the sale date of the row counts toward the
  \<open>promo_days_count\<close> of its item: \<open>promo_days_count\<close> is the number of distinct dates
  of the item's candidate rows, and the date of the row is one of the dates counted.
  Returns and rows of quantity 0 register as promotions at a discount of 100\%.
\<close>

theorem returns_register_as_promo_candidates:
  assumes "r \<in> set (main (clean_data ops df))"
    and "num_le (quantity r) 0" and "num_gt (rrp r) 0"
  shows "unit_price r = Some 0 \<and> discount_pct r = Some 1 \<and>
    num_ge (discount_pct r) (1 / 10) \<and> is_promo_candidate r \<and>
    promo_days_count r =
      Some (of_nat (card {d'. \<exists>r' \<in> set (main (clean_data ops df)).
        item_code r' = item_code r \<and> num_ge (discount_pct r') (1 / 10) \<and>
        date_of_sale r' = Some d'})) \<and>
    promo_days_count r =
      Some (of_nat (nunique (dropna (map date_of_sale
        (filter (\<lambda>r'. item_code r' = item_code r \<and> num_ge (discount_pct r') (1 / 10))
          (main (clean_data ops df))))))) \<and>
    (date_of_sale r = Some d \<longrightarrow>
       d \<in> {d'. \<exists>r' \<in> set (main (clean_data ops df)).
         item_code r' = item_code r \<and> num_ge (discount_pct r') (1 / 10) \<and>
         date_of_sale r' = Some d'} \<and>
       d \<in> set (dropna (map date_of_sale
         (filter (\<lambda>r'. item_code r' = item_code r \<and> num_ge (discount_pct r') (1 / 10))
           (main (clean_data ops df))))) \<and>
       num_ge (promo_days_count r) 1)"
proof -
  let ?out = "main (clean_data ops df)"
  let ?cand = "filter (\<lambda>r'. item_code r' = item_code r \<and> num_ge (discount_pct r') (1 / 10)) ?out"
  let ?dates = "{d'. \<exists>r' \<in> set ?out. item_code r' = item_code r \<and>
    num_ge (discount_pct r') (1 / 10) \<and> date_of_sale r' = Some d'}"
  have up: "unit_price r = Some 0"
    by (rule nonpositive_quantity_unit_price [OF assms(1,2)])
  from assms(3) obtain p where p: "rrp r = Some p" "0 < p"
    by (auto simp: num_gt_def split: option.splits)
  have disc: "discount_pct r = Some 1"
    using main_discount_pct [OF assms(1)] up p
    by (simp add: calc_discount_pct_def num_gt_def)
  then have cand: "num_ge (discount_pct r) (1 / 10)"
    by (simp add: num_ge_def)
  then have temp: "is_promo_candidate r"
    by (simp add: main_candidate [OF assms(1)] PROMO_MIN_DISCOUNT_PCT_def)
  have count: "promo_days_count r = Some (of_nat (nunique (dropna (map date_of_sale ?cand))))"
    using main_promo_days_count [OF assms(1)] by (simp add: PROMO_MIN_DISCOUNT_PCT_def)
  have "nunique (dropna (map date_of_sale ?cand)) =
      card {d'. \<exists>r' \<in> set ?out. (item_code r' = item_code r \<and>
        num_ge (discount_pct r') (1 / 10)) \<and> date_of_sale r' = Some d'}"
    by (rule nunique_dates_card)
  then have card: "promo_days_count r = Some (of_nat (card ?dates))"
    using count by (simp add: conj_assoc)
  have days: "d \<in> ?dates \<and> d \<in> set (dropna (map date_of_sale ?cand)) \<and>
      num_ge (promo_days_count r) 1"
    if "date_of_sale r = Some d"
  proof -
    have "d \<in> ?dates"
      using assms(1) cand that by blast
    moreover have "r \<in> set ?cand" using assms(1) cand by simp
    then have "date_of_sale r \<in> date_of_sale ` set ?cand"
      by (rule imageI)
    then have "Some d \<in> set (map date_of_sale ?cand)"
      using that by simp
    then have mem: "d \<in> set (dropna (map date_of_sale ?cand))"
      by (simp add: set_dropna)
    then have "dropna (map date_of_sale ?cand) \<noteq> []" by auto
    then have "0 < nunique (dropna (map date_of_sale ?cand))"
      by (rule nunique_pos)
    then have "(1::rat) \<le> of_nat (nunique (dropna (map date_of_sale ?cand)))"
      by simp
    then have "num_ge (promo_days_count r) 1"
      by (simp add: count num_ge_def)
    ultimately show ?thesis using mem by simp
  qed
  from up disc cand temp card count days show ?thesis by blast
qed

theorem returns_register_as_promo_candidates_witness:
  "main (clean_data plain_text_ops raw_returns) ! 0
     \<in> set (main (clean_data plain_text_ops raw_returns)) \<and>
   quantity (main (clean_data plain_text_ops raw_returns) ! 0) = Some (- 2) \<and>
   rrp (main (clean_data plain_text_ops raw_returns) ! 0) = Some 100 \<and>
   date_of_sale (main (clean_data plain_text_ops raw_returns) ! 0) = Some 5 \<and>
   unit_price (main (clean_data plain_text_ops raw_returns) ! 0) = Some 0 \<and>
   discount_pct (main (clean_data plain_text_ops raw_returns) ! 0) = Some 1 \<and>
   dropna (map date_of_sale (filter (\<lambda>r'.
       item_code r' = item_code (main (clean_data plain_text_ops raw_returns) ! 0) \<and>
       num_ge (discount_pct r') (1 / 10)) (main (clean_data plain_text_ops raw_returns)))) = [5, 6] \<and>
   promo_days_count (main (clean_data plain_text_ops raw_returns) ! 0) = Some 2 \<and>
   is_promo (main (clean_data plain_text_ops raw_returns) ! 0)"
proof -
  let ?out = "main (clean_data plain_text_ops raw_returns)"
  have len: "length (clean_data plain_text_ops raw_returns) = 2"
    by code_simp
  have mem: "?out ! 0 \<in> set ?out"
    by (rule nth_mem) (simp add: main_length len)
  have q: "quantity (?out ! 0) = Some (- 2)" and p: "rrp (?out ! 0) = Some 100"
    and d: "date_of_sale (?out ! 0) = Some 5"
    by code_simp+
  have promo: "is_promo (?out ! 0)"
    by code_simp
  have dates: "dropna (map date_of_sale (filter (\<lambda>r'.
       item_code r' = item_code (?out ! 0) \<and> num_ge (discount_pct r') (1 / 10)) ?out)) = [5, 6]"
    by code_simp
  have hyps: "num_le (quantity (?out ! 0)) 0" "num_gt (rrp (?out ! 0)) 0"
    by (simp_all add: q p num_le_def num_gt_def)
  from returns_register_as_promo_candidates [OF mem hyps, of 5]
  have "unit_price (?out ! 0) = Some 0" and "discount_pct (?out ! 0) = Some 1"
    and "promo_days_count (?out ! 0) = Some (of_nat (nunique (dropna (map date_of_sale
        (filter (\<lambda>r'. item_code r' = item_code (?out ! 0) \<and> num_ge (discount_pct r') (1 / 10))
          ?out)))))"
    by blast+
  then have "unit_price (?out ! 0) = Some 0" and "discount_pct (?out ! 0) = Some 1"
    and "promo_days_count (?out ! 0) = Some 2"
    unfolding dates by (simp_all add: nunique_def)
  with mem q p d promo dates show ?thesis by blast
qed

end
